theory Spec2Isabelle
  imports Main "HOL-Library.Word"
begin

section \<open>The macros of \<^verbatim>\<open>src/macros.hpp\<close>\<close>

text \<open>
  The header defines three macros: \<^verbatim>\<open>ENSURE_INIT\<close> (two expansions, selected by
  \<^verbatim>\<open>NDEBUG\<close>), \<^verbatim>\<open>EXPECTED_VOID\<close> and \<^verbatim>\<open>NOEXCEPT\<close> (two expansions, selected
  by \<^verbatim>\<open>NOEXCEPT_ENABLED\<close>). A macro is a piece of code expanded at its call site, so
  each one is a function of the world it runs in and of its argument \<^emph>\<open>expression\<close>:
  the expansion may mention the argument several times, and every mention evaluates it
  again.
\<close>

subsection \<open>The world a macro expansion runs in\<close>

text \<open>
  What can be observed of the process: the bytes written so far to the standard output
  stream and to the error stream, and the program's own state, of any type.
\<close>

record 's world =
  stdout :: string
  stderr :: string
  prog :: 's

text \<open>How control leaves an expansion: it falls through, or the process ends.\<close>

datatype outcome =
    Continues
  | Aborted          \<comment> \<open>\<^verbatim>\<open>std::abort()\<close>\<close>
  | Exited int       \<comment> \<open>\<^verbatim>\<open>std::exit(status)\<close>\<close>

text \<open>
  An argument expression computes a value and may change the world while doing so.
  \<open>pure_expr v\<close> is an expression without side effects: a value that is simply there.
\<close>

type_synonym ('s, 'a) expr = "'s world \<Rightarrow> 'a \<times> 's world"

definition pure_expr :: "'a \<Rightarrow> ('s, 'a) expr" where
  "pure_expr v w = (v, w)"

text \<open>
  \<open>counted e\<close> is the expression \<open>e\<close> fitted with an evaluation counter kept beside the
  program state: each evaluation does what \<open>e\<close> does and adds one to the counter.
  \<open>evals\<close> reads the counter.
\<close>

definition hide_counter :: "(nat \<times> 's) world \<Rightarrow> 's world" where
  "hide_counter w = \<lparr>stdout = stdout w, stderr = stderr w, prog = snd (prog w)\<rparr>"

definition with_counter :: "nat \<Rightarrow> 's world \<Rightarrow> (nat \<times> 's) world" where
  "with_counter n w = \<lparr>stdout = stdout w, stderr = stderr w, prog = (n, prog w)\<rparr>"

definition evals :: "(nat \<times> 's) world \<Rightarrow> nat" where
  "evals w = fst (prog w)"

definition counted :: "('s, 'a) expr \<Rightarrow> (nat \<times> 's, 'a) expr" where
  "counted e w =
     (case e (hide_counter w) of (v, w') \<Rightarrow> (v, with_counter (Suc (evals w)) w'))"

subsection \<open>Output\<close>

definition newline :: char where
  "newline = CHR 0x0A"

text \<open>\<^verbatim>\<open>std::println("{}", s)\<close>: the string, then a newline, on the standard output.\<close>

definition println :: "string \<Rightarrow> 's world \<Rightarrow> 's world" where
  "println s w = w\<lparr>stdout := stdout w @ s @ [newline]\<rparr>"

text \<open>\<^verbatim>\<open>::fprintf(stderr, ...)\<close> with the formatted text \<open>s\<close>.\<close>

definition fprintf_stderr :: "string \<Rightarrow> 's world \<Rightarrow> 's world" where
  "fprintf_stderr s w = w\<lparr>stderr := stderr w @ s\<rparr>"

text \<open>The conversion \<^verbatim>\<open>%d\<close> of a line number (\<^verbatim>\<open>__LINE__\<close> is positive): decimal digits.\<close>

definition digit :: "nat \<Rightarrow> char" where
  "digit d = char_of (48 + d)"

fun decimal :: "nat \<Rightarrow> string" where
  "decimal n = (if n < 10 then [digit n] else decimal (n div 10) @ [digit (n mod 10)])"

declare decimal.simps [simp del]

subsection \<open>\<^verbatim>\<open>EXPECTED_VOID\<close>\<close>

text \<open>
  \<^verbatim>\<open>std::expected<void, std::string>\<close>: success without a value, or an error message.
\<close>

datatype expected_void = Has_value | Unexpected string

text \<open>
  \<^verbatim>\<open>
  #define EXPECTED_VOID(expr)
    ({
      std::expected<void, std::string> expected = (expr);
      if (!expected) {
        std::println("{}", expected.error());
        std::exit(1);
      }
    })
  \<close>
  The expansion declares the local \<^verbatim>\<open>expected\<close> and evaluates \<^verbatim>\<open>(expr)\<close> in its
  initialiser. The scope of the local begins at its declarator, before the initialiser,
  so inside the argument the identifier \<^verbatim>\<open>expected\<close> names the new local, whose storage
  is not initialised yet, and no longer a variable of the caller. An argument of the
  macro is therefore an expression open in that identifier: \<open>expr x\<close> is the argument
  where \<^verbatim>\<open>expected\<close> denotes \<open>x\<close>. What the caller means by the argument is \<open>expr\<close> at
  the caller's own variable (if there is one); what the expansion evaluates is \<open>expr\<close> at
  the content of the uninitialised local. Reading that content is undefined in C++, so
  what the read yields is the parameter \<open>uninitialised\<close>.
\<close>

type_synonym ('s, 'a) open_expr = "expected_void \<Rightarrow> ('s, 'a) expr"

definition EXPECTED_VOID ::
  "expected_void \<Rightarrow> ('s, expected_void) open_expr \<Rightarrow> 's world \<Rightarrow> outcome \<times> 's world" where
  "EXPECTED_VOID uninitialised expr w =
     (case expr uninitialised w of (expected, w1) \<Rightarrow>
        (case expected of
           Unexpected error \<Rightarrow> (Exited 1, println error w1)
         | Has_value \<Rightarrow> (Continues, w1)))"

text \<open>
  Two kinds of argument: one that does not mention the identifier \<^verbatim>\<open>expected\<close>, and
  the argument spelled \<^verbatim>\<open>expected\<close>, a variable of the caller that holds the result.
\<close>

definition closed_argument :: "('s, 'a) expr \<Rightarrow> ('s, 'a) open_expr" where
  "closed_argument e x = e"

definition variable_expected :: "('s, expected_void) open_expr" where
  "variable_expected x = pure_expr x"

subsection \<open>\<^verbatim>\<open>ENSURE_INIT\<close>\<close>

text \<open>
  \<^verbatim>\<open>
  #ifndef NDEBUG
  #define ENSURE_INIT(ptr)
    ((ptr) ? void()
           : (::fprintf(stderr, "[%s:%d] Uninitialised pointer: %s (value=%p)\n", __FILE__,
                        __LINE__, #ptr, static_cast<const void *>(ptr)),
              std::abort()))
  #else
  #define ENSURE_INIT(ptr) (void)0
  #endif
  \<close>
  A pointer is a machine word of the platform's width; the null pointer is the word 0,
  and a pointer in a condition is true when it is not null.

  The text that \<^verbatim>\<open>fprintf\<close> produces from the format string: \<^verbatim>\<open>%s\<close> copies a string,
  \<^verbatim>\<open>%d\<close> writes the line number in decimal, and \<^verbatim>\<open>%p\<close> writes the pointer in a form
  that the C library chooses, so that conversion is the parameter \<open>fmt_p\<close>.
\<close>

definition diagnostic ::
  "('w::len word \<Rightarrow> string) \<Rightarrow> string \<Rightarrow> nat \<Rightarrow> string \<Rightarrow> 'w word \<Rightarrow> string" where
  "diagnostic fmt_p file line text v =
     ''['' @ file @ '':'' @ decimal line @ ''] Uninitialised pointer: '' @ text @
     '' (value='' @ fmt_p v @ '')'' @ [newline]"

text \<open>
  The parameters of a call site: \<open>ndebug\<close> says whether \<^verbatim>\<open>NDEBUG\<close> is defined, \<open>file\<close>
  and \<open>line\<close> are \<^verbatim>\<open>__FILE__\<close> and \<^verbatim>\<open>__LINE__\<close>, \<open>text\<close> is the spelling of the
  argument (\<^verbatim>\<open>#ptr\<close>) and \<open>ptr\<close> is the argument as an expression. The debug expansion
  mentions \<open>ptr\<close> in the condition and again in the argument list of \<^verbatim>\<open>fprintf\<close>; the
  other arguments of \<^verbatim>\<open>fprintf\<close> are constants, so the order in which the arguments are
  evaluated does not matter.
\<close>

definition ENSURE_INIT ::
  "bool \<Rightarrow> ('w::len word \<Rightarrow> string) \<Rightarrow> string \<Rightarrow> nat \<Rightarrow> string \<Rightarrow>
   ('s, 'w word) expr \<Rightarrow> 's world \<Rightarrow> outcome \<times> 's world" where
  "ENSURE_INIT ndebug fmt_p file line text ptr w =
     (if \<not> ndebug then
        (case ptr w of (c, w1) \<Rightarrow>
           if c \<noteq> 0 then (Continues, w1)
           else (case ptr w1 of (v, w2) \<Rightarrow>
                   (Aborted, fprintf_stderr (diagnostic fmt_p file line text v) w2)))
      else (Continues, w))"

text \<open>
  The specification's reference behaviour for a release build: the program with the
  macro call removed, which does nothing at that place.
\<close>

definition macro_call_removed :: "'s world \<Rightarrow> outcome \<times> 's world" where
  "macro_call_removed w = (Continues, w)"

text \<open>
  One \<^verbatim>\<open>%p\<close> conversion, used where a concrete one is needed: the GNU C library writes
  \<^verbatim>\<open>(nil)\<close> for the null pointer and \<^verbatim>\<open>0x\<close> with lower-case hexadecimal digits
  otherwise.
\<close>

definition hex_digit :: "nat \<Rightarrow> char" where
  "hex_digit d = (if d < 10 then char_of (48 + d) else char_of (87 + d))"

fun hexadecimal :: "nat \<Rightarrow> string" where
  "hexadecimal n =
     (if n < 16 then [hex_digit n] else hexadecimal (n div 16) @ [hex_digit (n mod 16)])"

declare hexadecimal.simps [simp del]

definition glibc_fmt_p :: "64 word \<Rightarrow> string" where
  "glibc_fmt_p p = (if p = 0 then ''(nil)'' else ''0x'' @ hexadecimal (unat p))"

subsection \<open>\<^verbatim>\<open>NOEXCEPT\<close>\<close>

text \<open>
  \<^verbatim>\<open>
  #ifndef NOEXCEPT_ENABLED
  #define NOEXCEPT noexcept
  #else
  #define NOEXCEPT
  #endif
  \<close>
  The macro expands to the specifier \<^verbatim>\<open>noexcept\<close> or to no tokens at all.
  \<open>noexcept_enabled\<close> says whether \<^verbatim>\<open>NOEXCEPT_ENABLED\<close> is defined.
\<close>

datatype exception_specification =
    Noexcept         \<comment> \<open>\<^verbatim>\<open>noexcept\<close>: the function promises not to throw\<close>
  | No_specifier     \<comment> \<open>nothing: the function may throw\<close>

definition NOEXCEPT :: "bool \<Rightarrow> exception_specification" where
  "NOEXCEPT noexcept_enabled = (if \<not> noexcept_enabled then Noexcept else No_specifier)"

text \<open>
  Modelled from the spec: section 4.3 has the flag choose between a declaration that is
  guaranteed not to raise an error and one that may raise, so that with the guarantee
  disabled wrapping code can intercept failures. What the specifier does in a running
  program is missing under \<^verbatim>\<open>src/\<close>, where the header only selects it; it is the
  meaning that the C++ language gives to \<^verbatim>\<open>noexcept\<close>. The body of a function either
  returns a value or throws an exception; an exception that reaches the outermost block
  of a \<^verbatim>\<open>noexcept\<close> function makes the program call \<^verbatim>\<open>std::terminate\<close>, and without
  the specifier it goes on to the caller, who may catch it.
\<close>

datatype ('x, 'a) call_outcome =
    Returned 'a
  | Propagated 'x
  | Terminate_called

type_synonym ('s, 'x, 'a) body = "'s world \<Rightarrow> ('x + 'a) \<times> 's world"

definition call_function ::
  "exception_specification \<Rightarrow> ('s, 'x, 'a) body \<Rightarrow> 's world \<Rightarrow> ('x, 'a) call_outcome \<times> 's world" where
  "call_function spec body w =
     (case body w of (r, w1) \<Rightarrow>
        (case r of
           Inr v \<Rightarrow> (Returned v, w1)
         | Inl x \<Rightarrow>
             (case spec of
                Noexcept \<Rightarrow> (Terminate_called, w1)
              | No_specifier \<Rightarrow> (Propagated x, w1))))"

text \<open>
  Modelled from the spec: the declared guarantee can also be read by the program, which
  is again the C++ language's doing and not code under \<^verbatim>\<open>src/\<close>. The operator
  \<^verbatim>\<open>noexcept(f())\<close> on a call of a function declared with the specifier is a constant of
  the build, true for \<^verbatim>\<open>noexcept\<close> and false without it; type traits and overloads on the
  function's type derive from it.
\<close>

definition noexcept_operator :: "exception_specification \<Rightarrow> bool" where
  "noexcept_operator spec = (case spec of Noexcept \<Rightarrow> True | No_specifier \<Rightarrow> False)"

text \<open>
  Modelled from the spec: a program that uses the annotation. Its functions declared
  \<^verbatim>\<open>NOEXCEPT\<close> are the family \<open>bodies\<close>, indexed by name; the rest of the program is
  \<open>main\<close>, any code at all, which may call those functions through \<open>invoke\<close> whenever and
  as often as it likes and handle what comes back. Both the bodies and the rest of the
  program may consult the \<^verbatim>\<open>noexcept\<close> operator, so they take its value. The build
  enters the program in exactly two places: the value of the operator, and what a call
  does with an exception.
\<close>

definition run_program ::
  "exception_specification \<Rightarrow> (bool \<Rightarrow> 'n \<Rightarrow> ('s, 'x, 'a) body) \<Rightarrow>
   (bool \<Rightarrow> ('n \<Rightarrow> 's world \<Rightarrow> ('x, 'a) call_outcome \<times> 's world) \<Rightarrow> 's world \<Rightarrow> 'r \<times> 's world) \<Rightarrow>
   's world \<Rightarrow> 'r \<times> 's world" where
  "run_program spec bodies main w =
     main (noexcept_operator spec)
       (\<lambda>n. call_function spec (bodies (noexcept_operator spec) n)) w"

text \<open>
  A function body that throws, one that returns, and the world of a process that has
  written nothing.
\<close>

definition throwing_body :: "(unit, string, unit) body" where
  "throwing_body w = (Inl ''failure'', w)"

definition returning_body :: "(unit, string, unit) body" where
  "returning_body w = (Inr (), w)"

definition quiet_world :: "unit world" where
  "quiet_world = \<lparr>stdout = [], stderr = [], prog = ()\<rparr>"

text \<open>
  Small programs: one function \<^verbatim>\<open>f\<close> declared \<^verbatim>\<open>NOEXCEPT\<close> whose body returns, or
  throws; a main that calls \<^verbatim>\<open>f\<close> once and ends with what the call gave; and a main that
  calls nothing and prints the value of \<^verbatim>\<open>noexcept(f())\<close>.
\<close>

definition returning_bodies :: "bool \<Rightarrow> unit \<Rightarrow> (unit, string, unit) body" where
  "returning_bodies b n = returning_body"

definition throwing_bodies :: "bool \<Rightarrow> unit \<Rightarrow> (unit, string, unit) body" where
  "throwing_bodies b n = throwing_body"

definition calling_main ::
  "bool \<Rightarrow> (unit \<Rightarrow> unit world \<Rightarrow> (string, unit) call_outcome \<times> unit world) \<Rightarrow>
   unit world \<Rightarrow> (string, unit) call_outcome \<times> unit world" where
  "calling_main b invoke w = invoke () w"

definition inspecting_main ::
  "bool \<Rightarrow> (unit \<Rightarrow> unit world \<Rightarrow> (string, unit) call_outcome \<times> unit world) \<Rightarrow>
   unit world \<Rightarrow> unit \<times> unit world" where
  "inspecting_main b invoke w = ((), println (if b then ''true'' else ''false'') w)"

section \<open>Properties\<close>

subsection \<open>Auxiliary facts\<close>

lemma evals_counted: "evals (snd (counted e w)) = Suc (evals w)"
  by (simp add: counted_def evals_def with_counter_def split: prod.splits)

lemma evals_println: "evals (println s w) = evals w"
  by (simp add: println_def evals_def)

lemma evals_fprintf_stderr: "evals (fprintf_stderr s w) = evals w"
  by (simp add: fprintf_stderr_def evals_def)

lemma newline_notin_decimal: "newline \<notin> set (decimal n)"
proof (induction n rule: decimal.induct)
  case (1 n)
  have d: "digit k \<noteq> newline" if "k < 10" for k
  proof
    assume "digit k = newline"
    then have "(of_char (digit k) :: nat) = of_char newline" by simp
    with that show False by (simp add: digit_def newline_def)
  qed
  show ?case
  proof (cases "n < 10")
    case True
    then show ?thesis using d [of n] by (subst decimal.simps) auto
  next
    case False
    then show ?thesis using 1 d [of "n mod 10"] by (subst decimal.simps) auto
  qed
qed

lemma diagnostic_one_line:
  assumes "newline \<notin> set file" "newline \<notin> set text" "newline \<notin> set (fmt_p v)"
  shows "count_list (diagnostic fmt_p file line text v) newline = 1"
  using assms newline_notin_decimal [of line]
  by (simp add: diagnostic_def newline_def)

lemma EXPECTED_VOID_error_closed_argument:
  assumes "e w = (Unexpected M, w')"
  shows "EXPECTED_VOID u (closed_argument e) w =
     (Exited 1, w'\<lparr>stdout := stdout w' @ M @ [newline]\<rparr>)"
  using assms by (simp add: EXPECTED_VOID_def closed_argument_def println_def)

lemma EXPECTED_VOID_success_closed_argument:
  assumes "e w = (Has_value, w')"
  shows "EXPECTED_VOID u (closed_argument e) w = (Continues, w')"
  using assms by (simp add: EXPECTED_VOID_def closed_argument_def)

lemma EXPECTED_VOID_variable_expected:
  "EXPECTED_VOID u variable_expected w = EXPECTED_VOID u (closed_argument (pure_expr u)) w"
  by (simp add: EXPECTED_VOID_def variable_expected_def closed_argument_def)

lemma call_function_returning:
  assumes "\<forall>u. \<exists>v. fst (body u) = Inr v"
  shows "call_function spec body = call_function spec' body"
proof
  fix u
  from assms obtain v where "fst (body u) = Inr v" by blast
  then show "call_function spec body u = call_function spec' body u"
    by (cases "body u") (simp add: call_function_def)
qed

subsection \<open>\<^verbatim>\<open>EXPECTED_VOID\<close> on an error\<close>

text \<open>
  Claim C1 asks that for every input carrying an error with message \<open>M\<close> the helper
  prints \<open>M\<close> and a newline on the standard output and exits with status 1. The
  expansion does so for every argument that does not mention the identifier
  \<^verbatim>\<open>expected\<close> (\<open>EXPECTED_VOID_error_closed_argument\<close>). It fails where the caller
  holds the result in a variable of its own named \<^verbatim>\<open>expected\<close> and writes
  \<^verbatim>\<open>EXPECTED_VOID(expected)\<close>: the caller's variable holds the error \<^verbatim>\<open>boom\<close>, and the
  expansion tests its own uninitialised local instead. Whatever that local yields
  decides the outcome, and the caller's message is not what is printed; where the local
  reads as an error with an empty message, the output is a lone newline.
\<close>

theorem EXPECTED_VOID_captures_error:
  "variable_expected (Unexpected ''boom'') quiet_world = (Unexpected ''boom'', quiet_world) \<and>
   EXPECTED_VOID u variable_expected quiet_world =
     (case u of
        Unexpected m \<Rightarrow> (Exited 1, \<lparr>stdout = m @ [newline], stderr = [], prog = ()\<rparr>)
      | Has_value \<Rightarrow> (Continues, quiet_world)) \<and>
   EXPECTED_VOID (Unexpected []) variable_expected quiet_world =
     (Exited 1, \<lparr>stdout = [newline], stderr = [], prog = ()\<rparr>)"
  by (simp add: EXPECTED_VOID_def variable_expected_def pure_expr_def println_def
      quiet_world_def split: expected_void.splits)

subsection \<open>\<^verbatim>\<open>ENSURE_INIT\<close> on a null pointer, debug build\<close>

text \<open>
  Claim C2. In a debug build (\<^verbatim>\<open>NDEBUG\<close> undefined), when the argument of
  \<^verbatim>\<open>ENSURE_INIT\<close> is null, the macro appends to the error stream the single text
  \<^verbatim>\<open>[<file>:<line>] Uninitialised pointer: <expr> (value=<addr>)\<close> and a newline, where
  \<^verbatim>\<open><addr>\<close> is the \<^verbatim>\<open>%p\<close> rendering of the pointer, and the process ends through
  \<^verbatim>\<open>std::abort\<close>, not through an exit. The standard output is not written. The value
  \<open>v\<close> that is printed and the world \<open>w'\<close> are those of the evaluation of the argument
  in the argument list of \<^verbatim>\<open>fprintf\<close>; for a pointer value (\<open>pure_expr\<close>) they are the
  null pointer and the world of the call, as in the instance below. By
  \<open>diagnostic_one_line\<close> the text is one line whenever the file name, the spelling of
  the argument and the rendering of the pointer contain no newline.
\<close>

theorem ENSURE_INIT_null_diagnostic_abort:
  assumes "fst (ptr w) = 0" and "ptr (snd (ptr w)) = (v, w')"
  shows "ENSURE_INIT False fmt_p file line text ptr w =
     (Aborted,
      w'\<lparr>stderr := stderr w' @
         ''['' @ file @ '':'' @ decimal line @ ''] Uninitialised pointer: '' @ text @
         '' (value='' @ fmt_p v @ '')'' @ [newline]\<rparr>)"
proof (cases "ptr w")
  case (Pair c w1)
  with assms have "c = 0" and "ptr w1 = (v, w')" by simp_all
  with Pair show ?thesis
    by (simp add: ENSURE_INIT_def fprintf_stderr_def diagnostic_def)
qed

theorem ENSURE_INIT_null_diagnostic_abort_witness:
  "fst (pure_expr (0 :: 64 word) quiet_world) = 0 \<and>
   pure_expr (0 :: 64 word) (snd (pure_expr (0 :: 64 word) quiet_world)) = (0, quiet_world) \<and>
   ENSURE_INIT False glibc_fmt_p ''main.cpp'' 42 ''window'' (pure_expr 0) quiet_world =
     (Aborted,
      \<lparr>stdout = [],
       stderr = ''[main.cpp:42] Uninitialised pointer: window (value=(nil))'' @ [CHR 0x0A],
       prog = ()\<rparr>)"
proof -
  have d: "decimal 42 = ''42''" by code_simp
  show ?thesis
    using ENSURE_INIT_null_diagnostic_abort
      [of "pure_expr (0 :: 64 word)" quiet_world 0 quiet_world glibc_fmt_p "''main.cpp''" 42 "''window''"]
    by (simp add: pure_expr_def quiet_world_def newline_def glibc_fmt_p_def d)
qed

subsection \<open>\<^verbatim>\<open>EXPECTED_VOID\<close> evaluates its argument once\<close>

text \<open>
  Claim C3. Whatever the argument expression of \<^verbatim>\<open>EXPECTED_VOID\<close> does, whether it
  mentions the identifier \<^verbatim>\<open>expected\<close> or not, and whether it yields success or an
  error, one use of the helper evaluates it exactly once: the evaluation counter of a
  counted argument goes up by one.
\<close>

theorem EXPECTED_VOID_evaluates_once:
  "evals (snd (EXPECTED_VOID u (\<lambda>x. counted (expr x)) w)) = Suc (evals w)"
proof (cases "counted (expr u) w")
  case (Pair r w1)
  then have "evals w1 = Suc (evals w)"
    using evals_counted [of "expr u" w] by simp
  with Pair show ?thesis
    by (simp add: EXPECTED_VOID_def evals_println split: expected_void.splits)
qed

subsection \<open>\<^verbatim>\<open>ENSURE_INIT\<close> on a pointer that is not null\<close>

text \<open>
  Claim C4. When the argument of \<^verbatim>\<open>ENSURE_INIT\<close> is not null, the macro does not end
  the process and adds no effect of its own, in either build: nothing is written, and the
  world after the macro is the world \<open>w'\<close> left by the one evaluation of the argument
  (debug build) or the world of the call (release build, where the argument is not
  evaluated). For a pointer value (\<open>pure_expr\<close>) both are the world of the call, as in
  the instance below.
\<close>

theorem ENSURE_INIT_non_null_no_effect:
  assumes "ptr w = (p, w')" and "p \<noteq> 0"
  shows "ENSURE_INIT ndebug fmt_p file line text ptr w = (Continues, if ndebug then w else w')"
  using assms by (simp add: ENSURE_INIT_def)

theorem ENSURE_INIT_non_null_no_effect_witness:
  "pure_expr (0x7ffe10 :: 64 word) quiet_world = (0x7ffe10, quiet_world) \<and>
   (0x7ffe10 :: 64 word) \<noteq> 0 \<and>
   ENSURE_INIT False glibc_fmt_p ''main.cpp'' 42 ''window'' (pure_expr 0x7ffe10) quiet_world =
     (Continues, quiet_world) \<and>
   ENSURE_INIT True glibc_fmt_p ''main.cpp'' 42 ''window'' (pure_expr 0x7ffe10) quiet_world =
     (Continues, quiet_world)"
  using
    ENSURE_INIT_non_null_no_effect
      [of "pure_expr (0x7ffe10 :: 64 word)" quiet_world "0x7ffe10" quiet_world False
          glibc_fmt_p "''main.cpp''" 42 "''window''"]
    ENSURE_INIT_non_null_no_effect
      [of "pure_expr (0x7ffe10 :: 64 word)" quiet_world "0x7ffe10" quiet_world True
          glibc_fmt_p "''main.cpp''" 42 "''window''"]
  by (simp add: pure_expr_def)

subsection \<open>\<^verbatim>\<open>EXPECTED_VOID\<close> on success\<close>

text \<open>
  Claim C5 asks that for every success-valued input the helper prints nothing, does not
  end the process and changes nothing. The expansion does so for every argument that
  does not mention the identifier \<^verbatim>\<open>expected\<close>
  (\<open>EXPECTED_VOID_success_closed_argument\<close>). It fails where the caller holds the
  success value in a variable of its own named \<^verbatim>\<open>expected\<close> and writes
  \<^verbatim>\<open>EXPECTED_VOID(expected)\<close>: the expansion tests its own uninitialised local, and
  where that local does not read as a success the helper prints and exits with status 1
  although the caller's value is a success.
\<close>

theorem EXPECTED_VOID_captures_success:
  "variable_expected Has_value quiet_world = (Has_value, quiet_world) \<and>
   EXPECTED_VOID (Unexpected m) variable_expected quiet_world =
     (Exited 1, \<lparr>stdout = m @ [newline], stderr = [], prog = ()\<rparr>) \<and>
   EXPECTED_VOID (Unexpected []) variable_expected quiet_world \<noteq> (Continues, quiet_world)"
  by (simp add: EXPECTED_VOID_def variable_expected_def pure_expr_def println_def
      quiet_world_def)

subsection \<open>\<^verbatim>\<open>ENSURE_INIT\<close> in a release build\<close>

text \<open>
  Claim C6. In a release build (\<^verbatim>\<open>NDEBUG\<close> defined) \<^verbatim>\<open>ENSURE_INIT\<close> does nothing for
  every argument, null or not: it behaves as the program with the macro call removed, it
  never ends the process, it writes nothing, and it does not evaluate its argument (the
  evaluation counter of a counted argument stays where it was).
\<close>

theorem ENSURE_INIT_release_no_op:
  "ENSURE_INIT True fmt_p file line text ptr w = macro_call_removed w \<and>
   evals (snd (ENSURE_INIT True fmt_p file line text (counted ptr) wc)) = evals wc"
  by (simp add: ENSURE_INIT_def macro_call_removed_def)

subsection \<open>Toggling \<^verbatim>\<open>NOEXCEPT_ENABLED\<close>\<close>

text \<open>
  Claim C7, as amended. Toggling \<^verbatim>\<open>NOEXCEPT_ENABLED\<close> changes the declared exception
  guarantee at compile time. The two resulting programs behave alike on every input
  provided that nothing in the program depends on the declared guarantee (the
  \<^verbatim>\<open>noexcept\<close> operator and what derives from it) and that the functions declared
  \<^verbatim>\<open>NOEXCEPT\<close> never let an exception leave them. Otherwise they can differ: the
  \<^verbatim>\<open>noexcept\<close> operator
  on a call of such a function is true with the flag undefined and false with it
  defined, and an exception that leaves such a function calls \<^verbatim>\<open>std::terminate\<close> with
  the flag undefined and goes on to the caller with it defined.
\<close>

theorem NOEXCEPT_toggle_runtime_behaviour:
  "(main True = main False \<and> bodies True = bodies False \<and>
    (\<forall>n u. \<exists>v. fst (bodies False n u) = Inr v) \<longrightarrow>
      run_program (NOEXCEPT True) bodies main w = run_program (NOEXCEPT False) bodies main w) \<and>
   noexcept_operator (NOEXCEPT False) = True \<and>
   noexcept_operator (NOEXCEPT True) = False \<and>
   (fst (body w') = Inl x \<longrightarrow>
      call_function (NOEXCEPT False) body w' = (Terminate_called, snd (body w')) \<and>
      call_function (NOEXCEPT True) body w' = (Propagated x, snd (body w')))"
proof -
  have alike: "run_program (NOEXCEPT True) bodies main w = run_program (NOEXCEPT False) bodies main w"
    if m: "main True = main False" and b: "bodies True = bodies False"
      and r: "\<forall>n u. \<exists>v. fst (bodies False n u) = Inr v"
  proof -
    have "call_function (NOEXCEPT True) (bodies False n) =
          call_function (NOEXCEPT False) (bodies False n)" for n
      using r by (intro call_function_returning) blast
    with m b show ?thesis
      by (simp add: run_program_def NOEXCEPT_def noexcept_operator_def)
  qed
  have operator: "noexcept_operator (NOEXCEPT False) = True" "noexcept_operator (NOEXCEPT True) = False"
    by (simp_all add: NOEXCEPT_def noexcept_operator_def)
  have throws: "call_function (NOEXCEPT False) body w' = (Terminate_called, snd (body w')) \<and>
      call_function (NOEXCEPT True) body w' = (Propagated x, snd (body w'))"
    if "fst (body w') = Inl x"
    using that by (cases "body w'") (simp add: call_function_def NOEXCEPT_def)
  from alike operator throws show ?thesis by blast
qed

theorem NOEXCEPT_toggle_runtime_behaviour_witness:
  "calling_main True = calling_main False \<and>
   returning_bodies True = returning_bodies False \<and>
   (\<forall>n u. \<exists>v. fst (returning_bodies False n u) = Inr v) \<and>
   run_program (NOEXCEPT True) returning_bodies calling_main quiet_world =
     run_program (NOEXCEPT False) returning_bodies calling_main quiet_world \<and>
   run_program (NOEXCEPT False) returning_bodies calling_main quiet_world =
     (Returned (), quiet_world) \<and>
   fst (throwing_body quiet_world) = Inl ''failure'' \<and>
   call_function (NOEXCEPT False) throwing_body quiet_world = (Terminate_called, quiet_world) \<and>
   call_function (NOEXCEPT True) throwing_body quiet_world = (Propagated ''failure'', quiet_world)"
proof -
  have m: "calling_main True = calling_main False"
    by (rule ext)+ (simp add: calling_main_def)
  have b: "returning_bodies True = returning_bodies False"
    by (rule ext)+ (simp add: returning_bodies_def)
  have r: "\<forall>n u. \<exists>v. fst (returning_bodies False n u) = Inr v"
    by (simp add: returning_bodies_def returning_body_def)
  have t: "fst (throwing_body quiet_world) = Inl ''failure''"
    by (simp add: throwing_body_def)
  have result: "run_program (NOEXCEPT False) returning_bodies calling_main quiet_world =
     (Returned (), quiet_world)"
    by (simp add: run_program_def calling_main_def returning_bodies_def returning_body_def
        call_function_def)
  show ?thesis
    using m b r t result
      NOEXCEPT_toggle_runtime_behaviour
        [of calling_main returning_bodies quiet_world throwing_body quiet_world "''failure''"]
    by (simp add: throwing_body_def)
qed

text \<open>
  Both provisos are needed. A program that prints \<^verbatim>\<open>noexcept(f())\<close> differs between the
  builds although \<^verbatim>\<open>f\<close> returns, and a program that calls a throwing \<^verbatim>\<open>f\<close> differs
  although it never consults the operator.
\<close>

lemma NOEXCEPT_toggle_shows_in_operator:
  "run_program (NOEXCEPT False) returning_bodies inspecting_main quiet_world =
     ((), \<lparr>stdout = ''true'' @ [newline], stderr = [], prog = ()\<rparr>) \<and>
   run_program (NOEXCEPT True) returning_bodies inspecting_main quiet_world =
     ((), \<lparr>stdout = ''false'' @ [newline], stderr = [], prog = ()\<rparr>)"
  by (simp add: run_program_def inspecting_main_def NOEXCEPT_def noexcept_operator_def
      println_def quiet_world_def)

lemma NOEXCEPT_toggle_shows_in_throwing_program:
  "run_program (NOEXCEPT False) throwing_bodies calling_main quiet_world =
     (Terminate_called, quiet_world) \<and>
   run_program (NOEXCEPT True) throwing_bodies calling_main quiet_world =
     (Propagated ''failure'', quiet_world)"
  by (simp add: run_program_def calling_main_def throwing_bodies_def throwing_body_def
      call_function_def NOEXCEPT_def noexcept_operator_def)

text \<open>
  The claim as first stated, that the two builds behave alike on every input, fails for a
  function whose body throws.
\<close>

theorem NOEXCEPT_toggle_counterexample:
  "call_function (NOEXCEPT False) throwing_body quiet_world \<noteq>
   call_function (NOEXCEPT True) throwing_body quiet_world"
  by (simp add: call_function_def NOEXCEPT_def throwing_body_def)

subsection \<open>The polarity of \<^verbatim>\<open>NOEXCEPT_ENABLED\<close>\<close>

text \<open>
  Claim C8. The flag works against its name: with \<^verbatim>\<open>NOEXCEPT_ENABLED\<close> not defined
  \<^verbatim>\<open>NOEXCEPT\<close> expands to \<^verbatim>\<open>noexcept\<close>, and with \<^verbatim>\<open>NOEXCEPT_ENABLED\<close> defined it
  expands to nothing, which leaves the declaration without an exception guarantee.
\<close>

theorem NOEXCEPT_polarity:
  "NOEXCEPT False = Noexcept \<and> NOEXCEPT True = No_specifier"
  by (simp add: NOEXCEPT_def)

subsection \<open>\<^verbatim>\<open>ENSURE_INIT\<close> evaluates a null argument twice\<close>

text \<open>
  Claim C9. In a debug build, when the argument of \<^verbatim>\<open>ENSURE_INIT\<close> is null at the
  check, the macro evaluates the argument expression twice, once for the check and once
  for the value it prints: the evaluation counter of a counted argument goes up by two,
  so the side effects of the argument happen twice before the process aborts.
\<close>

theorem ENSURE_INIT_null_evaluates_twice:
  assumes "fst (counted ptr w) = 0"
  shows "evals (snd (ENSURE_INIT False fmt_p file line text (counted ptr) w)) = Suc (Suc (evals w))"
proof (cases "counted ptr w")
  case first: (Pair c w1)
  then have e1: "evals w1 = Suc (evals w)" and c: "c = 0"
    using evals_counted [of ptr w] assms by simp_all
  show ?thesis
  proof (cases "counted ptr w1")
    case second: (Pair v w2)
    then have "evals w2 = Suc (evals w1)"
      using evals_counted [of ptr w1] by simp
    with first second c e1 show ?thesis
      by (simp add: ENSURE_INIT_def evals_fprintf_stderr)
  qed
qed

theorem ENSURE_INIT_null_evaluates_twice_witness:
  "fst (counted (pure_expr (0 :: 64 word)) (with_counter 0 quiet_world)) = 0 \<and>
   evals (with_counter 0 quiet_world) = 0 \<and>
   evals (snd (ENSURE_INIT False glibc_fmt_p ''main.cpp'' 42 ''window''
                 (counted (pure_expr 0)) (with_counter 0 quiet_world))) = 2"
  using ENSURE_INIT_null_evaluates_twice
    [of "pure_expr (0 :: 64 word)" "with_counter 0 quiet_world" glibc_fmt_p "''main.cpp''" 42 "''window''"]
  by (simp add: counted_def pure_expr_def evals_def with_counter_def)

subsection \<open>Evaluations of the argument of \<^verbatim>\<open>ENSURE_INIT\<close>, by build\<close>

text \<open>
  Claim C10. The debug expansion of \<^verbatim>\<open>ENSURE_INIT\<close> evaluates its argument on every
  call (once when the value is not null, twice when it is null), the release expansion
  never evaluates it. So for an argument with a side effect, here the evaluation
  counter, the two expansions leave different worlds, also when the pointer is not null.
\<close>

theorem ENSURE_INIT_evaluations_by_build:
  "evals (snd (ENSURE_INIT False fmt_p file line text (counted ptr) w)) =
     (if fst (counted ptr w) = 0 then evals w + 2 else evals w + 1) \<and>
   evals (snd (ENSURE_INIT True fmt_p file line text (counted ptr) w)) = evals w \<and>
   ENSURE_INIT False fmt_p file line text (counted ptr) w \<noteq>
     ENSURE_INIT True fmt_p file line text (counted ptr) w"
proof -
  let ?debug = "ENSURE_INIT False fmt_p file line text (counted ptr) w"
  let ?release = "ENSURE_INIT True fmt_p file line text (counted ptr) w"
  obtain c w1 where first: "counted ptr w = (c, w1)" by (cases "counted ptr w")
  obtain v w2 where second: "counted ptr w1 = (v, w2)" by (cases "counted ptr w1")
  have e1: "evals w1 = Suc (evals w)"
    using evals_counted [of ptr w] first by simp
  have e2: "evals w2 = Suc (evals w1)"
    using evals_counted [of ptr w1] second by simp
  have debug: "evals (snd ?debug) = (if fst (counted ptr w) = 0 then evals w + 2 else evals w + 1)"
    using first second e1 e2 by (simp add: ENSURE_INIT_def evals_fprintf_stderr)
  have release: "evals (snd ?release) = evals w"
    by (simp add: ENSURE_INIT_def)
  have "evals (snd ?debug) \<noteq> evals (snd ?release)"
    using debug release by simp
  then have "?debug \<noteq> ?release" by auto
  with debug release show ?thesis by simp
qed

end
